theory Spec2Isabelle
  imports Main
begin

section \<open>MedTrack: the request handlers of app.py\<close>

text \<open>
  The Flask application of \<^verbatim>\<open>src/app.py\<close> is embedded handler by handler. Each
  handler takes the environment of the request (configuration, the outcomes of the
  external mail and publish calls, the identifier that \<^verbatim>\<open>uuid.uuid4()\<close> draws),
  the request (its method and form) and the world (the three tables, the session, and
  what the handler flashes, prints, mails and publishes), and returns its response
  with the new world.
\<close>

subsection \<open>Records of the three tables\<close>

record user =
  username :: string
  password :: string
  role :: string

record doctor =
  doctor_id :: string
  name :: string
  specialization :: string
  email :: string

record appointment =
  appointment_id :: string
  doctor_id :: string
  patient_email :: string
  date :: string
  reason :: string
  status :: string

subsection \<open>Directory store\<close>

text \<open>
  Modelled from the spec: the DynamoDB tables behind \<^verbatim>\<open>get_item\<close>,
  \<^verbatim>\<open>put_item\<close> and \<^verbatim>\<open>scan\<close> are an external service, not code of the
  repository. They follow the contract of section 4.1 of the specification: a
  point lookup by primary key, an unconditional upsert, and a full scan with an
  optional filter applied to the records read. A table is the list of its items with
  their keys, in storage order.
\<close>

type_synonym ('k, 'v) table = "('k \<times> 'v) list"

fun get_item :: "('k, 'v) table \<Rightarrow> 'k \<Rightarrow> 'v option" where
  "get_item [] k = None"
| "get_item ((k', v) # t) k = (if k' = k then Some v else get_item t k)"

fun put_item :: "('k, 'v) table \<Rightarrow> 'k \<Rightarrow> 'v \<Rightarrow> ('k, 'v) table" where
  "put_item [] k v = [(k, v)]"
| "put_item ((k', v') # t) k v = (if k' = k then (k, v) # t else (k', v') # put_item t k v)"

definition scan :: "('k, 'v) table \<Rightarrow> 'v list" where
  "scan t = map snd t"

definition scan_filter :: "('v \<Rightarrow> bool) \<Rightarrow> ('k, 'v) table \<Rightarrow> 'v list" where
  "scan_filter P t = filter P (scan t)"

record store =
  users_table :: "(string, user) table"
  doctors_table :: "(string, doctor) table"
  appointments_table :: "(string \<times> string, appointment) table"

subsection \<open>Requests, responses, environment and world\<close>

datatype http_method = GET | POST

record request =
  request_method :: http_method
  form :: "string \<rightharpoonup> string"

text \<open>What a template is rendered with.\<close>

datatype template_args =
    No_args
  | Username string
  | Doctors "doctor list"
  | Appointments "appointment list"

text \<open>
  \<open>Bad_request k\<close> is the 400 response of \<^verbatim>\<open>request.form[k]\<close> on a missing field;
  \<open>Key_error k\<close> is the unhandled \<^verbatim>\<open>KeyError\<close> of \<^verbatim>\<open>session[k]\<close> on a missing key.
\<close>

datatype response =
    Render string template_args
  | Redirect string
  | Bad_request string
  | Key_error string

record mail =
  subject :: string
  sender :: "string option"
  recipients :: "string list"
  body :: string

text \<open>
  The external calls of one request. \<open>sns_publish\<close> and \<open>mail_send\<close> give \<open>None\<close>
  when the call returns and \<open>Some e\<close> when it raises an \<^verbatim>\<open>Exception\<close> whose text
  is \<open>e\<close>; \<open>uuid4\<close> is the string that \<^verbatim>\<open>str(uuid.uuid4())\<close> evaluates to.
\<close>

record env =
  SNS_TOPIC_ARN :: "string option"
  MAIL_USERNAME :: "string option"
  sns_publish :: "string \<Rightarrow> string option"
  mail_send :: "mail \<Rightarrow> string option"
  uuid4 :: string

record world =
  db :: store
  session :: "string \<rightharpoonup> string"
  flashes :: "(string \<times> string) list"
  stdout :: "string list"
  outbox :: "mail list"
  published :: "(string \<times> string \<times> string) list"

definition flash :: "string \<Rightarrow> string \<Rightarrow> world \<Rightarrow> world" where
  "flash message category w = w\<lparr>flashes := flashes w @ [(message, category)]\<rparr>"

subsection \<open>Notification\<close>

definition send_sns_notification :: "env \<Rightarrow> string \<Rightarrow> world \<Rightarrow> world" where
  "send_sns_notification e message w =
     (case SNS_TOPIC_ARN e of
        None \<Rightarrow> w
      | Some arn \<Rightarrow>
          if arn = [] then w
          else (case sns_publish e message of
                  None \<Rightarrow> w\<lparr>published := published w @ [(arn, message, ''MedTrack Notification'')]\<rparr>
                | Some err \<Rightarrow> w\<lparr>stdout := stdout w @ [''SNS error: '' @ err]\<rparr>))"

subsection \<open>Account routes\<close>

definition welcome_mail :: "env \<Rightarrow> string \<Rightarrow> string \<Rightarrow> mail" where
  "welcome_mail e u r =
     \<lparr>subject = ''Welcome to MedTrack!'',
      sender = MAIL_USERNAME e,
      recipients = [u],
      body = ''Hello '' @ u @ [CHR '','', CHR 0x0A, CHR 0x0A]
             @ ''Thank you for registering as a '' @ r @ '' on MedTrack.''\<rparr>"

definition send_welcome :: "env \<Rightarrow> string \<Rightarrow> string \<Rightarrow> world \<Rightarrow> world" where
  "send_welcome e u r w =
     (case mail_send e (welcome_mail e u r) of
        None \<Rightarrow> w\<lparr>outbox := outbox w @ [welcome_mail e u r]\<rparr>
      | Some err \<Rightarrow> w\<lparr>stdout := stdout w @ [''Email error: '' @ err]\<rparr>)"

definition register :: "env \<Rightarrow> request \<Rightarrow> world \<Rightarrow> response \<times> world" where
  "register e rq w =
     (if request_method rq = POST then
        (case form rq ''role'' of
           None \<Rightarrow> (Bad_request ''role'', w)
         | Some r \<Rightarrow>
        (case form rq ''username'' of
           None \<Rightarrow> (Bad_request ''username'', w)
         | Some u \<Rightarrow>
        (case form rq ''password'' of
           None \<Rightarrow> (Bad_request ''password'', w)
         | Some p \<Rightarrow>
        (case get_item (users_table (db w)) u of
           Some item \<Rightarrow>
             (Render ''register.html'' No_args, flash ''User already exists!'' ''danger'' w)
         | None \<Rightarrow>
             (let w1 = w\<lparr>db := (db w)\<lparr>users_table :=
                          put_item (users_table (db w)) u
                            \<lparr>username = u, password = p, role = r\<rparr>\<rparr>\<rparr>;
                  w2 = send_welcome e u r w1;
                  w3 = flash ''Registration successful! Please log in.'' ''success'' w2
              in (Redirect ''/login'', w3))))))
      else (Render ''register.html'' No_args, w))"

definition login :: "request \<Rightarrow> world \<Rightarrow> response \<times> world" where
  "login rq w =
     (if request_method rq = POST then
        (case form rq ''username'' of
           None \<Rightarrow> (Bad_request ''username'', w)
         | Some u \<Rightarrow>
        (case form rq ''password'' of
           None \<Rightarrow> (Bad_request ''password'', w)
         | Some p \<Rightarrow>
        (case get_item (users_table (db w)) u of
           Some usr \<Rightarrow>
             if password usr = p then
               (Redirect (''/'' @ role usr),
                w\<lparr>session := (session w)(''username'' \<mapsto> u, ''role'' \<mapsto> role usr)\<rparr>)
             else (Render ''login.html'' No_args, flash ''Invalid credentials!'' ''danger'' w)
         | None \<Rightarrow> (Render ''login.html'' No_args, flash ''Invalid credentials!'' ''danger'' w))))
      else (Render ''login.html'' No_args, w))"

text \<open>
  Flask keeps the flashed messages inside the session, so \<^verbatim>\<open>session.clear()\<close>
  drops them with the identity.
\<close>

definition logout :: "world \<Rightarrow> response \<times> world" where
  "logout w = (Redirect ''/'', w\<lparr>session := Map.empty, flashes := []\<rparr>)"

subsection \<open>Dashboards\<close>

definition doctor_dashboard :: "world \<Rightarrow> response \<times> world" where
  "doctor_dashboard w =
     (if session w ''role'' = Some ''doctor'' then
        (case session w ''username'' of
           None \<Rightarrow> (Key_error ''username'', w)
         | Some u \<Rightarrow> (Render ''doctor_dashboard.html'' (Username u), w))
      else (Redirect ''/login'', w))"

definition patient_dashboard :: "world \<Rightarrow> response \<times> world" where
  "patient_dashboard w =
     (if session w ''role'' = Some ''patient'' then
        (case session w ''username'' of
           None \<Rightarrow> (Key_error ''username'', w)
         | Some u \<Rightarrow> (Render ''patient_dashboard.html'' (Username u), w))
      else (Redirect ''/login'', w))"

subsection \<open>Scheduling routes\<close>

definition booking_message :: "string \<Rightarrow> string \<Rightarrow> string \<Rightarrow> string" where
  "booking_message d dt pe =
     ''New appointment booked with Doctor ID '' @ d @ '' on '' @ dt @ '' for '' @ pe"

text \<open>
  The POST branch draws the identifier first, then reads \<^verbatim>\<open>doctor_id\<close>, the
  session's username, \<^verbatim>\<open>date\<close> and \<^verbatim>\<open>reason\<close> in the order of the source, and
  only then writes. \<^verbatim>\<open>url_for('patient_dashboard')\<close> is the path \<^verbatim>\<open>/patient\<close>.
\<close>

definition book_appointment :: "env \<Rightarrow> request \<Rightarrow> world \<Rightarrow> response \<times> world" where
  "book_appointment e rq w =
     (if session w ''role'' \<noteq> Some ''patient'' then (Redirect ''/login'', w)
      else if request_method rq = POST then
        (let aid = uuid4 e in
        (case form rq ''doctor_id'' of
           None \<Rightarrow> (Bad_request ''doctor_id'', w)
         | Some d \<Rightarrow>
        (case session w ''username'' of
           None \<Rightarrow> (Key_error ''username'', w)
         | Some pe \<Rightarrow>
        (case form rq ''date'' of
           None \<Rightarrow> (Bad_request ''date'', w)
         | Some dt \<Rightarrow>
        (case form rq ''reason'' of
           None \<Rightarrow> (Bad_request ''reason'', w)
         | Some rs \<Rightarrow>
             (let w1 = w\<lparr>db := (db w)\<lparr>appointments_table :=
                          put_item (appointments_table (db w)) (aid, d)
                            \<lparr>appointment_id = aid, doctor_id = d, patient_email = pe,
                             date = dt, reason = rs, status = ''Scheduled''\<rparr>\<rparr>\<rparr>;
                  w2 = send_sns_notification e (booking_message d dt pe) w1;
                  w3 = flash ''Appointment booked successfully!'' ''success'' w2
              in (Redirect ''/patient'', w3)))))))
      else (Render ''book_appointment.html'' (Doctors (scan (doctors_table (db w)))), w))"

definition doctor_appointments :: "world \<Rightarrow> response \<times> world" where
  "doctor_appointments w =
     (if session w ''role'' \<noteq> Some ''doctor'' then (Redirect ''/login'', w)
      else
        (case session w ''username'' of
           None \<Rightarrow> (Key_error ''username'', w)
         | Some d \<Rightarrow>
             (Render ''view_appointment_doctor.html''
                (Appointments (scan_filter (\<lambda>a. doctor_id a = d) (appointments_table (db w)))),
              w)))"

definition patient_appointments :: "world \<Rightarrow> response \<times> world" where
  "patient_appointments w =
     (if session w ''role'' \<noteq> Some ''patient'' then (Redirect ''/login'', w)
      else
        (case session w ''username'' of
           None \<Rightarrow> (Key_error ''username'', w)
         | Some pe \<Rightarrow>
             (Render ''view_appointment_patient.html''
                (Appointments (scan_filter (\<lambda>a. patient_email a = pe) (appointments_table (db w)))),
              w)))"

definition doctor_register :: "env \<Rightarrow> request \<Rightarrow> world \<Rightarrow> response \<times> world" where
  "doctor_register e rq w =
     (if request_method rq = POST then
        (let did = uuid4 e in
        (case form rq ''name'' of
           None \<Rightarrow> (Bad_request ''name'', w)
         | Some n \<Rightarrow>
        (case form rq ''specialization'' of
           None \<Rightarrow> (Bad_request ''specialization'', w)
         | Some sp \<Rightarrow>
        (case form rq ''email'' of
           None \<Rightarrow> (Bad_request ''email'', w)
         | Some em \<Rightarrow>
             (let w1 = w\<lparr>db := (db w)\<lparr>doctors_table :=
                          put_item (doctors_table (db w)) did
                            \<lparr>doctor.doctor_id = did, name = n, specialization = sp, email = em\<rparr>\<rparr>\<rparr>;
                  w2 = flash ''Doctor registered successfully!'' ''success'' w1
              in (Redirect ''/login'', w2))))))
      else (Render ''doctor_register.html'' No_args, w))"

subsection \<open>Observations and runs\<close>

text \<open>The appointments a response shows; empty for any response that is not a listing.\<close>

fun rendered_appointments :: "response \<times> world \<Rightarrow> appointment list" where
  "rendered_appointments (Render t (Appointments as), w) = as"
| "rendered_appointments (r, w) = []"

text \<open>The identifiers of the appointments on file, in storage order.\<close>

definition stored_ids :: "world \<Rightarrow> string list" where
  "stored_ids w = map appointment_id (scan (appointments_table (db w)))"

text \<open>
  A run of booking requests, each with the environment of its own request, and the
  identifiers the run hands out: the draw of every call that ends in the success
  redirect.
\<close>

fun run_bookings :: "(env \<times> request) list \<Rightarrow> world \<Rightarrow> world" where
  "run_bookings [] w = w"
| "run_bookings ((e, rq) # xs) w = run_bookings xs (snd (book_appointment e rq w))"

fun booked_ids :: "(env \<times> request) list \<Rightarrow> world \<Rightarrow> string list" where
  "booked_ids [] w = []"
| "booked_ids ((e, rq) # xs) w =
     (if fst (book_appointment e rq w) = Redirect ''/patient'' then [uuid4 e] else [])
     @ booked_ids xs (snd (book_appointment e rq w))"

text \<open>
  A booking request that passes every read of the POST branch: the method is POST and
  the three form fields are present.
\<close>

definition bookable :: "request \<Rightarrow> bool" where
  "bookable rq = (request_method rq = POST \<and> form rq ''doctor_id'' \<noteq> None
                  \<and> form rq ''date'' \<noteq> None \<and> form rq ''reason'' \<noteq> None)"


subsection \<open>Concrete requests and worlds\<close>

definition env0 :: env where
  "env0 = \<lparr>SNS_TOPIC_ARN = None, MAIL_USERNAME = None,
           sns_publish = (\<lambda>m. None), mail_send = (\<lambda>m. None),
           uuid4 = ''1b4e28ba-2fa1-41d2-883f-0016d3cca427''\<rparr>"

definition env1 :: env where
  "env1 = env0\<lparr>uuid4 := ''7c9e6679-7425-40de-944b-e07fc1f90ae7''\<rparr>"

definition world0 :: world where
  "world0 = \<lparr>db = \<lparr>users_table = [], doctors_table = [], appointments_table = []\<rparr>,
             session = Map.empty, flashes = [], stdout = [], outbox = [], published = []\<rparr>"

definition post :: "(string \<times> string) list \<Rightarrow> request" where
  "post kvs = \<lparr>request_method = POST, form = map_of kvs\<rparr>"

definition book_rq :: "string \<Rightarrow> request" where
  "book_rq d = post [(''doctor_id'', d), (''date'', ''2024-01-01''), (''reason'', ''checkup'')]"

definition signed_in :: "string \<Rightarrow> string \<Rightarrow> world \<Rightarrow> world" where
  "signed_in u r w = w\<lparr>session := [''username'' \<mapsto> u, ''role'' \<mapsto> r]\<rparr>"

definition alice :: user where
  "alice = \<lparr>username = ''alice'', password = ''pw1'', role = ''patient''\<rparr>"

definition world_alice :: world where
  "world_alice = world0\<lparr>db := (db world0)\<lparr>users_table := [(''alice'', alice)]\<rparr>\<rparr>"

definition appt1 :: appointment where
  "appt1 = \<lparr>appointment_id = ''a1'', doctor_id = ''D1'', patient_email = ''alice'',
            date = ''2024-01-01'', reason = ''checkup'', status = ''Scheduled''\<rparr>"

definition appt2 :: appointment where
  "appt2 = \<lparr>appointment_id = ''a2'', doctor_id = ''drx'', patient_email = ''bob'',
            date = ''2024-01-02'', reason = ''flu'', status = ''Scheduled''\<rparr>"

definition world_clinic :: world where
  "world_clinic = world0\<lparr>db := (db world0)\<lparr>appointments_table :=
                    [((''a1'', ''D1''), appt1), ((''a2'', ''drx''), appt2)]\<rparr>\<rparr>"

section \<open>Properties of the store\<close>

lemma get_item_put_item_same: "get_item (put_item t k v) k = Some v"
  by (induction t) auto

lemma put_item_mem: "(k, v) \<in> set (put_item t k v)"
  by (induction t) auto

lemma put_item_keeps:
  "(k', v') \<in> set t \<Longrightarrow> k' \<noteq> k \<Longrightarrow> (k', v') \<in> set (put_item t k v)"
  by (induction t k v rule: put_item.induct) auto

lemma put_item_image_subset:
  "(f \<circ> snd) ` set (put_item t k v) \<subseteq> insert (f v) ((f \<circ> snd) ` set t)"
  by (induction t k v rule: put_item.induct) auto

lemma put_item_distinct:
  "distinct (map (f \<circ> snd) t) \<Longrightarrow> f v \<notin> (f \<circ> snd) ` set t
   \<Longrightarrow> distinct (map (f \<circ> snd) (put_item t k v))"
proof (induction t k v rule: put_item.induct)
  case (1 k v)
  then show ?case by simp
next
  case (2 k' v' t k v)
  show ?case
  proof (cases "k' = k")
    case True
    with 2 show ?thesis by auto
  next
    case False
    have "f v' \<notin> (f \<circ> snd) ` set (put_item t k v)"
      using put_item_image_subset[of f t k v] "2.prems" by auto
    with False 2 show ?thesis by auto
  qed
qed


text \<open>Neither the dispatcher nor a flash touches the tables or the session.\<close>

lemma db_send_sns [simp]: "db (send_sns_notification e m w) = db w"
  by (simp add: send_sns_notification_def split: option.splits)

lemma session_send_sns [simp]: "session (send_sns_notification e m w) = session w"
  by (simp add: send_sns_notification_def split: option.splits)

lemma flashes_send_sns [simp]: "flashes (send_sns_notification e m w) = flashes w"
  by (simp add: send_sns_notification_def split: option.splits)

lemma db_flash [simp]: "db (flash m c w) = db w"
  by (simp add: flash_def)

lemma session_flash [simp]: "session (flash m c w) = session w"
  by (simp add: flash_def)

section \<open>Account service\<close>

text \<open>
  C1. A login POST carrying username \<open>u\<close> and password \<open>p\<close> succeeds exactly when a
  user \<open>u\<close> is on file whose stored password equals \<open>p\<close>: it then puts the identity
  (\<open>u\<close> and the stored role) into the session and redirects to the page of that role.
  In every other case the answer is the login page with the one flash
  "Invalid credentials!", the same whether the user is unknown or the password wrong.
\<close>

theorem login_authenticates:
  assumes "request_method rq = POST" "form rq ''username'' = Some u" "form rq ''password'' = Some p"
  shows "if \<exists>usr. get_item (users_table (db w)) u = Some usr \<and> password usr = p
         then \<exists>usr. get_item (users_table (db w)) u = Some usr
                \<and> login rq w = (Redirect (''/'' @ role usr),
                     w\<lparr>session := (session w)(''username'' \<mapsto> u, ''role'' \<mapsto> role usr)\<rparr>)
         else login rq w = (Render ''login.html'' No_args, flash ''Invalid credentials!'' ''danger'' w)"
  using assms by (auto simp add: login_def split: option.splits)

theorem login_authenticates_witness:
  "login (post [(''username'', ''alice''), (''password'', ''pw1'')]) world_alice =
     (Redirect ''/patient'',
      world_alice\<lparr>session := [''username'' \<mapsto> ''alice'', ''role'' \<mapsto> ''patient'']\<rparr>)
   \<and> login (post [(''username'', ''alice''), (''password'', ''pw2'')]) world_alice =
     (Render ''login.html'' No_args, flash ''Invalid credentials!'' ''danger'' world_alice)
   \<and> login (post [(''username'', ''bob''), (''password'', ''pw1'')]) world_alice =
     (Render ''login.html'' No_args, flash ''Invalid credentials!'' ''danger'' world_alice)"
  using login_authenticates[of "post [(''username'', ''alice''), (''password'', ''pw1'')]"
      "''alice''" "''pw1''" world_alice]
    login_authenticates[of "post [(''username'', ''alice''), (''password'', ''pw2'')]"
      "''alice''" "''pw2''" world_alice]
    login_authenticates[of "post [(''username'', ''bob''), (''password'', ''pw1'')]"
      "''bob''" "''pw1''" world_alice]
  by (simp add: post_def world0_def world_alice_def alice_def)

text \<open>
  C2. Registering a username that is already on file answers with the registration page
  and the flash "User already exists!", and leaves the three tables as they were: the
  user on file keeps the password and the role it had.
\<close>

theorem register_existing_user:
  assumes "request_method rq = POST" "form rq ''role'' = Some r" "form rq ''username'' = Some u"
    "form rq ''password'' = Some p" "get_item (users_table (db w)) u = Some usr"
  shows "fst (register e rq w) = Render ''register.html'' No_args
     \<and> flashes (snd (register e rq w)) = flashes w @ [(''User already exists!'', ''danger'')]
     \<and> db (snd (register e rq w)) = db w
     \<and> get_item (users_table (db (snd (register e rq w)))) u = Some usr"
  using assms by (simp add: register_def flash_def)

theorem register_existing_user_witness:
  "fst (register env0 (post [(''role'', ''doctor''), (''username'', ''alice''), (''password'', ''new'')])
          world_alice) = Render ''register.html'' No_args
   \<and> db (snd (register env0 (post [(''role'', ''doctor''), (''username'', ''alice''), (''password'', ''new'')])
          world_alice)) = db world_alice
   \<and> get_item (users_table (db (snd (register env0
         (post [(''role'', ''doctor''), (''username'', ''alice''), (''password'', ''new'')])
          world_alice)))) ''alice'' = Some alice"
  using register_existing_user[of
      "post [(''role'', ''doctor''), (''username'', ''alice''), (''password'', ''new'')]"
      "''doctor''" "''alice''" "''new''" world_alice alice env0]
  by (simp add: post_def world0_def world_alice_def)

section \<open>Scheduling service\<close>

text \<open>
  C3. For a patient session with username \<open>u\<close> and any contents of the tables, the
  patient listing shows the appointments on file whose \<open>patient_email\<close> is \<open>u\<close>, in
  storage order: as a set, exactly those records and no other.
\<close>

theorem patient_appointments_exact:
  assumes "session w ''role'' = Some ''patient''" "session w ''username'' = Some u"
  shows "patient_appointments w =
       (Render ''view_appointment_patient.html''
          (Appointments (filter (\<lambda>a. patient_email a = u) (map snd (appointments_table (db w))))), w)
     \<and> set (rendered_appointments (patient_appointments w)) =
       {a \<in> snd ` set (appointments_table (db w)). patient_email a = u}"
  using assms by (auto simp add: patient_appointments_def scan_filter_def scan_def)

theorem patient_appointments_exact_witness:
  "patient_appointments (signed_in ''alice'' ''patient'' world_clinic) =
     (Render ''view_appointment_patient.html'' (Appointments [appt1]),
      signed_in ''alice'' ''patient'' world_clinic)"
  using patient_appointments_exact[of "signed_in ''alice'' ''patient'' world_clinic" "''alice''"]
  by (simp add: signed_in_def world_clinic_def world0_def appt1_def appt2_def)

text \<open>
  C4. A booking POST of a patient with all three form fields succeeds for every
  \<open>doctor_id\<close>, whatever the doctors table holds: it redirects to the patient dashboard,
  the record with that \<open>doctor_id\<close> is on file under the drawn identifier, the patient
  listing of the same session shows it, and the doctors table is not consulted or changed.
\<close>

theorem book_unknown_doctor:
  assumes "session w ''role'' = Some ''patient''" "session w ''username'' = Some u"
    "request_method rq = POST" "form rq ''doctor_id'' = Some d" "form rq ''date'' = Some dt"
    "form rq ''reason'' = Some rs"
  shows "fst (book_appointment e rq w) = Redirect ''/patient''
     \<and> get_item (appointments_table (db (snd (book_appointment e rq w)))) (uuid4 e, d) =
         Some \<lparr>appointment_id = uuid4 e, doctor_id = d, patient_email = u,
               date = dt, reason = rs, status = ''Scheduled''\<rparr>
     \<and> \<lparr>appointment_id = uuid4 e, doctor_id = d, patient_email = u,
               date = dt, reason = rs, status = ''Scheduled''\<rparr>
         \<in> set (rendered_appointments (patient_appointments (snd (book_appointment e rq w))))
     \<and> doctors_table (db (snd (book_appointment e rq w))) = doctors_table (db w)"
  using assms
  by (auto simp add: book_appointment_def patient_appointments_def scan_filter_def scan_def
      get_item_put_item_same Let_def send_sns_notification_def flash_def
      intro: image_eqI[OF _ put_item_mem] split: option.splits)

theorem book_unknown_doctor_witness:
  "get_item (doctors_table (db (signed_in ''alice'' ''patient'' world0))) ''no-such-doctor'' = None
   \<and> fst (book_appointment env0 (book_rq ''no-such-doctor'') (signed_in ''alice'' ''patient'' world0))
       = Redirect ''/patient''
   \<and> \<lparr>appointment_id = uuid4 env0, doctor_id = ''no-such-doctor'', patient_email = ''alice'',
       date = ''2024-01-01'', reason = ''checkup'', status = ''Scheduled''\<rparr>
       \<in> set (rendered_appointments (patient_appointments
            (snd (book_appointment env0 (book_rq ''no-such-doctor'')
                   (signed_in ''alice'' ''patient'' world0)))))"
  using book_unknown_doctor[of "signed_in ''alice'' ''patient'' world0" "''alice''"
      "book_rq ''no-such-doctor''" "''no-such-doctor''" "''2024-01-01''" "''checkup''" env0]
  by (simp add: signed_in_def world0_def book_rq_def post_def)

text \<open>
  C5. The notification cannot change a booking. Replace the topic configuration and the
  outcome of the publish call by any other (no topic, a publish that returns, a publish
  that raises): the response of \<open>book_appointment\<close>, the tables, the session and the
  flashed messages are the same. The dispatcher itself returns in every case and leaves
  the tables alone.
\<close>

theorem booking_ignores_notification:
  "fst (book_appointment (e\<lparr>SNS_TOPIC_ARN := t, sns_publish := f\<rparr>) rq w)
     = fst (book_appointment e rq w)
   \<and> db (snd (book_appointment (e\<lparr>SNS_TOPIC_ARN := t, sns_publish := f\<rparr>) rq w))
     = db (snd (book_appointment e rq w))
   \<and> session (snd (book_appointment (e\<lparr>SNS_TOPIC_ARN := t, sns_publish := f\<rparr>) rq w))
     = session (snd (book_appointment e rq w))
   \<and> flashes (snd (book_appointment (e\<lparr>SNS_TOPIC_ARN := t, sns_publish := f\<rparr>) rq w))
     = flashes (snd (book_appointment e rq w))
   \<and> db (send_sns_notification e m w) = db w"
  by (simp add: book_appointment_def Let_def flash_def send_sns_notification_def
      split: option.splits)

theorem booking_ignores_notification_witness:
  "fst (book_appointment
          (env0\<lparr>SNS_TOPIC_ARN := Some ''arn:aws:sns:us-east-1:000000000000:medtrack'',
                sns_publish := (\<lambda>m. Some ''EndpointConnectionError'')\<rparr>)
          (book_rq ''D1'') (signed_in ''alice'' ''patient'' world0))
     = fst (book_appointment env0 (book_rq ''D1'') (signed_in ''alice'' ''patient'' world0))
   \<and> db (snd (book_appointment
          (env0\<lparr>SNS_TOPIC_ARN := Some ''arn:aws:sns:us-east-1:000000000000:medtrack'',
                sns_publish := (\<lambda>m. Some ''EndpointConnectionError'')\<rparr>)
          (book_rq ''D1'') (signed_in ''alice'' ''patient'' world0)))
     = db (snd (book_appointment env0 (book_rq ''D1'') (signed_in ''alice'' ''patient'' world0)))"
  using booking_ignores_notification[where e = env0
      and t = "Some ''arn:aws:sns:us-east-1:000000000000:medtrack''"
      and f = "\<lambda>m. Some ''EndpointConnectionError''" and rq = "book_rq ''D1''"
      and w = "signed_in ''alice'' ''patient'' world0"]
  by simp

text \<open>
  C7. The doctor listing is open to a session of role doctor only; any other session is
  redirected to the login page. For a doctor session with username \<open>u\<close> it shows the
  appointments on file whose \<open>doctor_id\<close> equals \<open>u\<close>, exactly those as a set, and
  nothing when no \<open>doctor_id\<close> on file equals the login username.
\<close>

theorem doctor_appointments_exact:
  "(session w ''role'' \<noteq> Some ''doctor'' \<longrightarrow> doctor_appointments w = (Redirect ''/login'', w))
   \<and> (session w ''role'' = Some ''doctor'' \<and> session w ''username'' = Some u \<longrightarrow>
        doctor_appointments w =
          (Render ''view_appointment_doctor.html''
             (Appointments (filter (\<lambda>a. doctor_id a = u) (map snd (appointments_table (db w))))), w)
        \<and> set (rendered_appointments (doctor_appointments w)) =
            {a \<in> snd ` set (appointments_table (db w)). doctor_id a = u}
        \<and> ((\<forall>a \<in> snd ` set (appointments_table (db w)). doctor_id a \<noteq> u) \<longrightarrow>
              rendered_appointments (doctor_appointments w) = []))"
  by (auto simp add: doctor_appointments_def scan_filter_def scan_def filter_empty_conv)

theorem doctor_appointments_exact_witness:
  "doctor_appointments (signed_in ''alice'' ''patient'' world_clinic) =
     (Redirect ''/login'', signed_in ''alice'' ''patient'' world_clinic)
   \<and> doctor_appointments (signed_in ''drx'' ''doctor'' world_clinic) =
     (Render ''view_appointment_doctor.html'' (Appointments [appt2]),
      signed_in ''drx'' ''doctor'' world_clinic)
   \<and> rendered_appointments (doctor_appointments (signed_in ''drlogin'' ''doctor'' world_clinic)) = []"
  using doctor_appointments_exact[of "signed_in ''alice'' ''patient'' world_clinic" "''alice''"]
    doctor_appointments_exact[of "signed_in ''drx'' ''doctor'' world_clinic" "''drx''"]
    doctor_appointments_exact[of "signed_in ''drlogin'' ''doctor'' world_clinic" "''drlogin''"]
  by (simp add: signed_in_def world_clinic_def world0_def appt1_def appt2_def)

section \<open>Access gate\<close>

text \<open>
  C8. Each of the five role-restricted routes, called with no role in the session or
  with a role other than the one it requires, redirects to the login page and returns
  the world it was given: tables, session and everything else untouched.
\<close>

theorem unauthorized_redirects:
  "(session w ''role'' \<noteq> Some ''doctor'' \<longrightarrow>
       doctor_dashboard w = (Redirect ''/login'', w)
     \<and> doctor_appointments w = (Redirect ''/login'', w))
   \<and> (session w ''role'' \<noteq> Some ''patient'' \<longrightarrow>
       patient_dashboard w = (Redirect ''/login'', w)
     \<and> book_appointment e rq w = (Redirect ''/login'', w)
     \<and> patient_appointments w = (Redirect ''/login'', w))"
  by (simp add: doctor_dashboard_def doctor_appointments_def patient_dashboard_def
      book_appointment_def patient_appointments_def)

theorem unauthorized_redirects_witness:
  "doctor_dashboard world0 = (Redirect ''/login'', world0)
   \<and> doctor_appointments (signed_in ''alice'' ''patient'' world_clinic) =
       (Redirect ''/login'', signed_in ''alice'' ''patient'' world_clinic)
   \<and> patient_dashboard world0 = (Redirect ''/login'', world0)
   \<and> book_appointment env0 (book_rq ''D1'') (signed_in ''drx'' ''doctor'' world_clinic) =
       (Redirect ''/login'', signed_in ''drx'' ''doctor'' world_clinic)
   \<and> patient_appointments (signed_in ''drx'' ''doctor'' world_clinic) =
       (Redirect ''/login'', signed_in ''drx'' ''doctor'' world_clinic)"
  using unauthorized_redirects[of world0 env0 "book_rq ''D1''"]
    unauthorized_redirects[of "signed_in ''alice'' ''patient'' world_clinic" env0 "book_rq ''D1''"]
    unauthorized_redirects[of "signed_in ''drx'' ''doctor'' world_clinic" env0 "book_rq ''D1''"]
  by (simp add: signed_in_def world0_def)

section \<open>Frame of the read-only routes\<close>

text \<open>
  C10. The two listings and the GET form of booking (which lists the doctors) return the
  world they were given, for every session and every contents of the tables: users,
  doctors and appointments are what they were. For a patient the GET form shows the
  full scan of the doctors table.
\<close>

theorem read_only_routes:
  "snd (doctor_appointments w) = w
   \<and> snd (patient_appointments w) = w
   \<and> snd (book_appointment e (rq\<lparr>request_method := GET\<rparr>) w) = w
   \<and> db (snd (doctor_appointments w)) = db w
   \<and> db (snd (patient_appointments w)) = db w
   \<and> db (snd (book_appointment e (rq\<lparr>request_method := GET\<rparr>) w)) = db w
   \<and> (session w ''role'' = Some ''patient'' \<longrightarrow>
        fst (book_appointment e (rq\<lparr>request_method := GET\<rparr>) w) =
          Render ''book_appointment.html'' (Doctors (map snd (doctors_table (db w)))))"
  by (simp add: doctor_appointments_def patient_appointments_def book_appointment_def scan_def
      split: option.splits)

theorem read_only_routes_witness:
  "snd (doctor_appointments (signed_in ''drx'' ''doctor'' world_clinic))
     = signed_in ''drx'' ''doctor'' world_clinic
   \<and> snd (patient_appointments (signed_in ''alice'' ''patient'' world_clinic))
     = signed_in ''alice'' ''patient'' world_clinic
   \<and> book_appointment env0 ((book_rq ''D1'')\<lparr>request_method := GET\<rparr>)
       (signed_in ''alice'' ''patient'' world_clinic)
     = (Render ''book_appointment.html'' (Doctors []), signed_in ''alice'' ''patient'' world_clinic)"
  using read_only_routes[of "signed_in ''drx'' ''doctor'' world_clinic" env0 "book_rq ''D1''"]
    read_only_routes[of "signed_in ''alice'' ''patient'' world_clinic" env0 "book_rq ''D1''"]
  by (simp add: signed_in_def world_clinic_def world0_def prod_eq_iff)

section \<open>Appointment identifiers over a run of bookings\<close>

lemma book_step_distinct:
  assumes "distinct (stored_ids w)" "uuid4 e \<notin> set (stored_ids w)"
  shows "distinct (stored_ids (snd (book_appointment e rq w)))"
proof -
  have key: "distinct (map (appointment_id \<circ> snd)
               (put_item (appointments_table (db w)) (uuid4 e, d) a))"
    if "appointment_id a = uuid4 e" for d a
  proof (rule put_item_distinct)
    show "distinct (map (appointment_id \<circ> snd) (appointments_table (db w)))"
      using assms(1) by (simp add: stored_ids_def scan_def)
    show "appointment_id a \<notin> (appointment_id \<circ> snd) ` set (appointments_table (db w))"
      using assms(2) that by (simp add: stored_ids_def scan_def image_comp)
  qed
  show ?thesis
    using assms(1) key
    by (simp add: book_appointment_def stored_ids_def scan_def Let_def split: option.splits)
qed

lemma book_step_ids:
  "set (stored_ids (snd (book_appointment e rq w))) \<subseteq> insert (uuid4 e) (set (stored_ids w))"
proof -
  have "(appointment_id \<circ> snd) ` set (put_item (appointments_table (db w)) (uuid4 e, d) a)
        \<subseteq> insert (uuid4 e) ((appointment_id \<circ> snd) ` set (appointments_table (db w)))"
    if "appointment_id a = uuid4 e" for d a
    using put_item_image_subset[of appointment_id "appointments_table (db w)" "(uuid4 e, d)" a] that
    by simp
  then show ?thesis
    by (simp add: book_appointment_def stored_ids_def scan_def Let_def subset_insertI split: option.splits)
qed

lemma run_bookings_distinct:
  assumes "distinct (stored_ids w)" "distinct (map (\<lambda>x. uuid4 (fst x)) xs)"
    "\<forall>x \<in> set xs. uuid4 (fst x) \<notin> set (stored_ids w)"
  shows "distinct (stored_ids (run_bookings xs w))"
  using assms
proof (induction xs arbitrary: w)
  case Nil
  then show ?case by simp
next
  case (Cons x xs)
  obtain e rq where x: "x = (e, rq)" by (cases x)
  let ?w = "snd (book_appointment e rq w)"
  have fresh: "uuid4 e \<notin> set (stored_ids w)" using Cons.prems(3) x by simp
  have d: "distinct (stored_ids ?w)"
    using book_step_distinct[OF Cons.prems(1) fresh] .
  have s: "set (stored_ids ?w) \<subseteq> insert (uuid4 e) (set (stored_ids w))"
    by (rule book_step_ids)
  have notin: "uuid4 e \<notin> (\<lambda>x. uuid4 (fst x)) ` set xs"
    using Cons.prems(2) x by simp
  have "\<forall>y \<in> set xs. uuid4 (fst y) \<notin> set (stored_ids ?w)"
  proof (intro ballI notI)
    fix y
    assume y: "y \<in> set xs" and m: "uuid4 (fst y) \<in> set (stored_ids ?w)"
    from m s have "uuid4 (fst y) = uuid4 e \<or> uuid4 (fst y) \<in> set (stored_ids w)"
      by auto
    then show False
    proof
      assume "uuid4 (fst y) = uuid4 e"
      with y have "uuid4 e \<in> (\<lambda>x. uuid4 (fst x)) ` set xs"
        by (metis image_eqI)
      with notin show False ..
    next
      assume "uuid4 (fst y) \<in> set (stored_ids w)"
      with y Cons.prems(3) show False by simp
    qed
  qed
  with Cons.IH[of ?w] d Cons.prems(2) x show ?case by simp
qed

lemma book_keeps_entry:
  assumes "((b, d), a) \<in> set (appointments_table (db w))" "uuid4 e \<noteq> b"
  shows "((b, d), a) \<in> set (appointments_table (db (snd (book_appointment e rq w))))"
proof -
  have "((b, d), a) \<in> set (put_item (appointments_table (db w)) (uuid4 e, d') a')" for d' a'
    using assms by (intro put_item_keeps) auto
  with assms(1) show ?thesis
    by (simp add: book_appointment_def Let_def split: option.splits)
qed

lemma book_success_stores:
  assumes "fst (book_appointment e rq w) = Redirect ''/patient''"
  shows "\<exists>d a. ((uuid4 e, d), a) \<in> set (appointments_table (db (snd (book_appointment e rq w))))
           \<and> appointment_id a = uuid4 e"
proof -
  from assms obtain d pe dt rs where
    "db (snd (book_appointment e rq w)) = (db w)\<lparr>appointments_table :=
        put_item (appointments_table (db w)) (uuid4 e, d)
          \<lparr>appointment_id = uuid4 e, doctor_id = d, patient_email = pe,
           date = dt, reason = rs, status = ''Scheduled''\<rparr>\<rparr>"
    by (auto simp add: book_appointment_def Let_def split: option.splits if_splits)
  then show ?thesis
    using put_item_mem[of "(uuid4 e, d)" _ "appointments_table (db w)"] by fastforce
qed

lemma book_bookable:
  assumes "session w ''role'' = Some ''patient''" "session w ''username'' = Some u" "bookable rq"
  shows "fst (book_appointment e rq w) = Redirect ''/patient''"
    and "session (snd (book_appointment e rq w)) = session w"
  using assms by (auto simp add: book_appointment_def bookable_def Let_def)

lemma booked_ids_bookable:
  "session w ''role'' = Some ''patient'' \<Longrightarrow> session w ''username'' = Some u
   \<Longrightarrow> \<forall>x \<in> set xs. bookable (snd x)
   \<Longrightarrow> booked_ids xs w = map (\<lambda>x. uuid4 (fst x)) xs"
proof (induction xs arbitrary: w)
  case Nil
  then show ?case by simp
next
  case (Cons x xs)
  obtain e rq where x: "x = (e, rq)" by (cases x)
  let ?w = "snd (book_appointment e rq w)"
  from Cons.prems x have b: "bookable rq" by simp
  have ok: "fst (book_appointment e rq w) = Redirect ''/patient''"
    and s: "session ?w = session w"
    using book_bookable[OF Cons.prems(1,2) b] by simp_all
  have "booked_ids xs ?w = map (\<lambda>x. uuid4 (fst x)) xs"
    using Cons.IH[of ?w] Cons.prems s by simp
  with ok x show ?case by simp
qed

lemma book_unsuccessful_db:
  "fst (book_appointment e rq w) \<noteq> Redirect ''/patient'' \<Longrightarrow> db (snd (book_appointment e rq w)) = db w"
  by (auto simp add: book_appointment_def Let_def split: option.splits if_splits)

lemma book_keeps_id:
  assumes "\<exists>d a. ((b, d), a) \<in> set (appointments_table (db w)) \<and> appointment_id a = b"
  shows "\<exists>d a. ((b, d), a) \<in> set (appointments_table (db (snd (book_appointment e rq w))))
           \<and> appointment_id a = b"
proof (cases "uuid4 e = b")
  case False
  from assms obtain d a where "((b, d), a) \<in> set (appointments_table (db w))" "appointment_id a = b"
    by blast
  with book_keeps_entry[OF this(1) False, of rq] show ?thesis by blast
next
  case True
  show ?thesis
  proof (cases "fst (book_appointment e rq w) = Redirect ''/patient''")
    case True
    from book_success_stores[OF this] \<open>uuid4 e = b\<close> show ?thesis by simp
  next
    case False
    from book_unsuccessful_db[OF this] assms show ?thesis by simp
  qed
qed

lemma run_keeps_id:
  "\<exists>d a. ((b, d), a) \<in> set (appointments_table (db w)) \<and> appointment_id a = b
   \<Longrightarrow> \<exists>d a. ((b, d), a) \<in> set (appointments_table (db (run_bookings xs w)))
           \<and> appointment_id a = b"
proof (induction xs arbitrary: w)
  case Nil
  then show ?case by simp
next
  case (Cons x xs)
  obtain e rq where x: "x = (e, rq)" by (cases x)
  from Cons.IH[OF book_keeps_id[OF Cons.prems, of e rq]] x show ?case by simp
qed

lemma booked_ids_on_file:
  "b \<in> set (booked_ids xs w)
   \<Longrightarrow> \<exists>d a. ((b, d), a) \<in> set (appointments_table (db (run_bookings xs w)))
          \<and> appointment_id a = b"
proof (induction xs arbitrary: w)
  case Nil
  then show ?case by simp
next
  case (Cons x xs)
  obtain e rq where x: "x = (e, rq)" by (cases x)
  let ?w = "snd (book_appointment e rq w)"
  show ?case
  proof (cases "b \<in> set (booked_ids xs ?w)")
    case True
    with Cons.IH[of ?w] x show ?thesis by simp
  next
    case False
    with Cons.prems x have ok: "fst (book_appointment e rq w) = Redirect ''/patient''"
      and b: "b = uuid4 e"
      by (auto split: if_splits)
    from book_success_stores[OF ok] b
    have "\<exists>d a. ((b, d), a) \<in> set (appointments_table (db ?w)) \<and> appointment_id a = b"
      by simp
    from run_keeps_id[OF this, of xs] x show ?thesis by simp
  qed
qed

text \<open>
  C6 as worded fails on the source. The identifier of a booking is the string that
  \<^verbatim>\<open>uuid.uuid4()\<close> draws for that call; it is stored as drawn and compared with
  nothing on file. Two bookings that draw the same string therefore carry the same
  identifier: the run below books twice on one draw and ends with two records under it.
\<close>

theorem booking_ids_repeat_counterexample:
  "booked_ids [(env0, book_rq ''D1''), (env0, book_rq ''D2'')]
     (signed_in ''alice'' ''patient'' world0) = [uuid4 env0, uuid4 env0]
   \<and> stored_ids (run_bookings [(env0, book_rq ''D1''), (env0, book_rq ''D2'')]
       (signed_in ''alice'' ''patient'' world0)) = [uuid4 env0, uuid4 env0]
   \<and> \<not> distinct (booked_ids [(env0, book_rq ''D1''), (env0, book_rq ''D2'')]
       (signed_in ''alice'' ''patient'' world0))"
  by (simp add: stored_ids_def scan_def book_appointment_def send_sns_notification_def flash_def
      Let_def signed_in_def world0_def env0_def book_rq_def post_def)

text \<open>
  C6, as the source has it. For every run of bookings that pass the reads of the POST
  branch, in a patient session: the identifiers handed out are the draws, one per call and in
  order, so they are pairwise different exactly when the draws are; every identifier
  handed out is on file at the end of the run; and when the draws are pairwise
  different and none is on file beforehand, the identifiers on file stay pairwise
  different.
\<close>

theorem booking_ids_are_draws:
  assumes "session w ''role'' = Some ''patient''" "session w ''username'' = Some u"
    "\<forall>x \<in> set xs. bookable (snd x)"
  shows "booked_ids xs w = map (\<lambda>x. uuid4 (fst x)) xs
     \<and> (distinct (booked_ids xs w) \<longleftrightarrow> distinct (map (\<lambda>x. uuid4 (fst x)) xs))
     \<and> set (booked_ids xs w) \<subseteq> set (stored_ids (run_bookings xs w))
     \<and> (distinct (stored_ids w) \<and> distinct (map (\<lambda>x. uuid4 (fst x)) xs)
          \<and> (\<forall>x \<in> set xs. uuid4 (fst x) \<notin> set (stored_ids w))
        \<longrightarrow> distinct (stored_ids (run_bookings xs w)))"
proof (intro conjI impI)
  show eq: "booked_ids xs w = map (\<lambda>x. uuid4 (fst x)) xs"
    using assms by (rule booked_ids_bookable)
  then show "distinct (booked_ids xs w) \<longleftrightarrow> distinct (map (\<lambda>x. uuid4 (fst x)) xs)"
    by simp
  show "set (booked_ids xs w) \<subseteq> set (stored_ids (run_bookings xs w))"
  proof
    fix b
    assume "b \<in> set (booked_ids xs w)"
    from booked_ids_on_file[OF this] obtain d a where
      "((b, d), a) \<in> set (appointments_table (db (run_bookings xs w)))" "appointment_id a = b"
      by auto
    then show "b \<in> set (stored_ids (run_bookings xs w))"
      by (force simp add: stored_ids_def scan_def)
  qed
next
  assume "distinct (stored_ids w) \<and> distinct (map (\<lambda>x. uuid4 (fst x)) xs)
          \<and> (\<forall>x \<in> set xs. uuid4 (fst x) \<notin> set (stored_ids w))"
  then show "distinct (stored_ids (run_bookings xs w))"
    using run_bookings_distinct[of w xs] by blast
qed

theorem booking_ids_are_draws_witness:
  "booked_ids [(env0, book_rq ''D1''), (env1, book_rq ''D1'')]
               (signed_in ''alice'' ''patient'' world0) = [uuid4 env0, uuid4 env1]
   \<and> distinct (booked_ids [(env0, book_rq ''D1''), (env1, book_rq ''D1'')]
               (signed_in ''alice'' ''patient'' world0))
   \<and> set (booked_ids [(env0, book_rq ''D1''), (env1, book_rq ''D1'')]
               (signed_in ''alice'' ''patient'' world0))
     \<subseteq> set (stored_ids (run_bookings [(env0, book_rq ''D1''), (env1, book_rq ''D1'')]
                 (signed_in ''alice'' ''patient'' world0)))
   \<and> distinct (stored_ids (run_bookings [(env0, book_rq ''D1''), (env1, book_rq ''D1'')]
                 (signed_in ''alice'' ''patient'' world0)))"
proof -
  let ?w = "signed_in ''alice'' ''patient'' world0"
  let ?xs = "[(env0, book_rq ''D1''), (env1, book_rq ''D1'')]"
  have h1: "session ?w ''role'' = Some ''patient''"
    and h2: "session ?w ''username'' = Some ''alice''"
    by (simp_all add: signed_in_def)
  have h3: "\<forall>x \<in> set ?xs. bookable (snd x)"
    by (simp add: bookable_def book_rq_def post_def)
  have h4: "distinct (stored_ids ?w)"
    and h6: "\<forall>x \<in> set ?xs. uuid4 (fst x) \<notin> set (stored_ids ?w)"
    by (simp_all add: stored_ids_def scan_def signed_in_def world0_def)
  have h5: "distinct (map (\<lambda>x. uuid4 (fst x)) ?xs)"
    by (simp add: env0_def env1_def)
  note r = booking_ids_are_draws[OF h1 h2 h3]
  have c1: "booked_ids ?xs ?w = [uuid4 env0, uuid4 env1]"
    using r by (simp del: booked_ids.simps run_bookings.simps)
  have c2: "distinct (booked_ids ?xs ?w)"
    using r h5 by blast
  have c3: "set (booked_ids ?xs ?w) \<subseteq> set (stored_ids (run_bookings ?xs ?w))"
    using r by blast
  have c4: "distinct (stored_ids (run_bookings ?xs ?w))"
    using r h4 h5 h6 by blast
  from c1 c2 c3 c4 show ?thesis by blast
qed

section \<open>Roles on file\<close>




end
